theory Spec2Isabelle
  imports Complex_Main
begin

section \<open>Data model of the gas-permeability notebook\<close>

text \<open>
  The notebook reads \<^verbatim>\<open>Perm_Data.xlsx\<close> into a dataframe with the columns
  Polymer, SMILES, He, H2, CO2, O2, N2 and CH4. A cell that pandas shows as NaN is
  \<open>None\<close>. A dataframe is the list of its rows, in row order.
\<close>

record perm_row =
  Polymer :: "string option"
  SMILES :: "string option"
  He :: "real option"
  H2 :: "real option"
  CO2 :: "real option"
  O2 :: "real option"
  N2 :: "real option"
  CH4 :: "real option"

text \<open>A gas-specific dataframe: the three columns Polymer, SMILES and one gas.\<close>

record gas_row =
  polymer :: "string option"
  smiles :: "string option"
  perm :: "real option"

type_synonym gas_df = "gas_row list"

text \<open>\<^verbatim>\<open>data.loc[:,["Polymer", "SMILES", g]]\<close> for a gas column \<open>g\<close>.\<close>

definition loc_gas :: "(perm_row \<Rightarrow> real option) \<Rightarrow> perm_row list \<Rightarrow> gas_df" where
  "loc_gas g data = map (\<lambda>r. \<lparr>polymer = Polymer r, smiles = SMILES r, perm = g r\<rparr>) data"

text \<open>The six variables the notebook keeps, one dataframe per gas.\<close>

record gas_frames =
  He_data :: gas_df
  H2_data :: gas_df
  CO2_data :: gas_df
  O2_data :: gas_df
  N2_data :: gas_df
  CH4_data :: gas_df

definition split_gases :: "perm_row list \<Rightarrow> gas_frames" where
  "split_gases data =
     \<lparr>He_data = loc_gas He data, H2_data = loc_gas H2 data, CO2_data = loc_gas CO2 data,
      O2_data = loc_gas O2 data, N2_data = loc_gas N2 data, CH4_data = loc_gas CH4 data\<rparr>"

subsection \<open>The cleaning helper\<close>

text \<open>
  \<^verbatim>\<open>
  def clean_df(df):
      #gets rid of NaN (not a number) entries in the dataframes
      # Drop duplicate SMILES rows (repeated entries from separate papers)
      return df
  \<close>
  The body holds the two comments and the return statement only.
\<close>

definition clean_df :: "gas_df \<Rightarrow> gas_df" where
  "clean_df df = df"

text \<open>The cell that reassigns each of the six dataframes to its cleaned version.\<close>

definition clean_all :: "gas_frames \<Rightarrow> gas_frames" where
  "clean_all fs =
     (let fs = fs\<lparr>He_data := clean_df (He_data fs)\<rparr>;
          fs = fs\<lparr>H2_data := clean_df (H2_data fs)\<rparr>;
          fs = fs\<lparr>CO2_data := clean_df (CO2_data fs)\<rparr>;
          fs = fs\<lparr>O2_data := clean_df (O2_data fs)\<rparr>;
          fs = fs\<lparr>N2_data := clean_df (N2_data fs)\<rparr>;
          fs = fs\<lparr>CH4_data := clean_df (CH4_data fs)\<rparr>
      in fs)"

text \<open>A row with at least one missing element, and the rows of a dataframe that have one.\<close>

definition has_nan :: "gas_row \<Rightarrow> bool" where
  "has_nan r \<longleftrightarrow> polymer r = None \<or> smiles r = None \<or> perm r = None"

definition nan_rows :: "gas_df \<Rightarrow> gas_df" where
  "nan_rows df = filter has_nan df"

text \<open>The rows whose SMILES value already occurs in an earlier row.\<close>

fun duplicate_rows :: "string option list \<Rightarrow> gas_df \<Rightarrow> gas_df" where
  "duplicate_rows seen [] = []"
| "duplicate_rows seen (r # rs) =
     (if smiles r \<in> set seen then r # duplicate_rows seen rs
      else duplicate_rows (smiles r # seen) rs)"

subsection \<open>Exceptions and the RDKit calls\<close>

text \<open>
  An exception is a value. \<open>Raised e\<close> is an exception raised inside an RDKit call,
  \<open>e\<close> its class name; the other three are raised by the interpreter, by NumPy and
  by pandas.
\<close>

datatype exn = Raised string | NameError | ValueError | IndexError

text \<open>
  RDKit is not part of the repository. Its three calls are parameters: each returns
  its result or raises. An \<^verbatim>\<open>ExplicitBitVect\<close> is the list of its bits.
\<close>

type_synonym bitvect = "bool list"

record 'mol rdkit =
  MolFromSmiles :: "string option \<Rightarrow> string + 'mol"
  RDKFingerprint :: "'mol \<Rightarrow> string + bitvect"
  GenMACCSKeys :: "'mol \<Rightarrow> string + bitvect"

text \<open>The notebook's text: fingerprints have 2,048 bits and MACCS keys have 167.\<close>

definition fpSize :: nat where
  "fpSize = 2048"

definition maccsSize :: nat where
  "maccsSize = 167"

text \<open>
  A valid mol object: RDKit computes both bit vectors for it, of the documented sizes.
\<close>

definition valid_mol :: "'mol rdkit \<Rightarrow> 'mol \<Rightarrow> bool" where
  "valid_mol lib mol \<longleftrightarrow>
     (case RDKFingerprint lib mol of Inl e \<Rightarrow> False | Inr bv \<Rightarrow> length bv = fpSize)
     \<and> (case GenMACCSKeys lib mol of Inl e \<Rightarrow> False | Inr bv \<Rightarrow> length bv = maccsSize)"

subsection \<open>NumPy arrays\<close>

type_synonym vec = "real list"
type_synonym matrix = "real list list"

definition np_zeros :: "nat \<Rightarrow> vec" where
  "np_zeros n = replicate n 0"

text \<open>
  \<^verbatim>\<open>DataStructs.ConvertToNumpyArray(bv, arr)\<close> resizes \<open>arr\<close> to the number of
  bits and overwrites it with the bits as numbers; the model returns the new \<open>arr\<close>.
\<close>

definition ConvertToNumpyArray :: "bitvect \<Rightarrow> vec \<Rightarrow> vec" where
  "ConvertToNumpyArray bv arr = map (\<lambda>b. if b then 1 else 0) bv"

definition ToBitString :: "bitvect \<Rightarrow> string" where
  "ToBitString bv = map (\<lambda>b. if b then CHR ''1'' else CHR ''0'') bv"

text \<open>Python's \<^verbatim>\<open>float(c)\<close> on a one-character string: a digit, or a ValueError.\<close>

definition float_of_char :: "char \<Rightarrow> real option" where
  "float_of_char c =
     (let k = (of_char c :: nat) in
      if 48 \<le> k \<and> k \<le> 57 then Some (real (k - 48)) else None)"

text \<open>\<^verbatim>\<open>np.fromiter(s, float)\<close> over the characters of a string.\<close>

fun np_fromiter :: "string \<Rightarrow> exn + vec" where
  "np_fromiter [] = Inr []"
| "np_fromiter (c # cs) =
     (case float_of_char c of
        None \<Rightarrow> Inl ValueError
      | Some x \<Rightarrow> (case np_fromiter cs of Inl e \<Rightarrow> Inl e | Inr xs \<Rightarrow> Inr (x # xs)))"

text \<open>
  \<^verbatim>\<open>np.vstack([a, b])\<close> of two arrays with rows: the rows of \<open>a\<close> followed by
  those of \<open>b\<close>, or a ValueError when the row lengths differ.
\<close>

definition vstack :: "matrix \<Rightarrow> matrix \<Rightarrow> exn + matrix" where
  "vstack a b =
     (if list_all (\<lambda>r. list_all (\<lambda>s. length r = length s) a) b
      then Inr (a @ b) else Inl ValueError)"

subsection \<open>The fingerprint helpers\<close>

text \<open>
  \<^verbatim>\<open>
  def calculate_fingerprint(mol):
      fps = []
      arr = np.zeros((1,))
      fp_temp = Chem.RDKFingerprint(mol, minSize=128)
      DataStructs.ConvertToNumpyArray(fp_temp, arr)
      fps.append(arr)
      return fps
  \<close>
\<close>

definition calculate_fingerprint :: "'mol rdkit \<Rightarrow> 'mol \<Rightarrow> exn + vec list" where
  "calculate_fingerprint lib mol =
     (let fps = [];
          arr = np_zeros 1
      in case RDKFingerprint lib mol of
           Inl e \<Rightarrow> Inl (Raised e)
         | Inr fp_temp \<Rightarrow>
             (let arr = ConvertToNumpyArray fp_temp arr;
                  fps = fps @ [arr]
              in Inr fps))"

text \<open>
  \<^verbatim>\<open>
  def get_MACCS(mol):
      fp = MACCSkeys.GenMACCSKeys(mol)
      fp = fp.ToBitString()
      fp = np.fromiter(fp, float)
      return fp
  \<close>
\<close>

definition get_MACCS :: "'mol rdkit \<Rightarrow> 'mol \<Rightarrow> exn + vec" where
  "get_MACCS lib mol =
     (case GenMACCSKeys lib mol of
        Inl e \<Rightarrow> Inl (Raised e)
      | Inr fp \<Rightarrow> (let fp = ToBitString fp in np_fromiter fp))"

subsection \<open>The fingerprint-stacking cell\<close>

text \<open>\<^verbatim>\<open>ML_data.iloc[i,1]\<close>: the SMILES cell of row \<open>i\<close>, or an IndexError.\<close>

definition iloc_smiles :: "gas_df \<Rightarrow> nat \<Rightarrow> exn + string option" where
  "iloc_smiles df i = (if i < length df then Inr (smiles (df ! i)) else Inl IndexError)"

text \<open>\<^verbatim>\<open>ML_data['O2'].values\<close>: the gas column as an array.\<close>

definition perms_of :: "gas_df \<Rightarrow> real option list" where
  "perms_of df = map perm df"

text \<open>
  The two statements a row goes through, for row 0 before the loop and for every later
  row inside the \<^verbatim>\<open>try\<close>:
  \<^verbatim>\<open>
  mol_temp = Chem.MolFromSmiles(ML_data.iloc[i,1])
  fp_temp = calculate_fingerprint(mol_temp)
  \<close>
\<close>

definition row_fingerprint :: "'mol rdkit \<Rightarrow> gas_df \<Rightarrow> nat \<Rightarrow> exn + vec list" where
  "row_fingerprint lib df i =
     (case iloc_smiles df i of
        Inl e \<Rightarrow> Inl e
      | Inr s \<Rightarrow>
          (case MolFromSmiles lib s of
             Inl e \<Rightarrow> Inl (Raised e)
           | Inr mol_temp \<Rightarrow> calculate_fingerprint lib mol_temp))"

text \<open>What the cell prints, in order.\<close>

datatype out = OutStr string | OutNat nat

text \<open>
  The variables of the cell. \<open>fp_temp\<close> is \<open>None\<close> until the first assignment to it:
  reading it then raises a NameError.
\<close>

record fp_state =
  fp :: matrix
  fp_temp :: "matrix option"
  printed :: "out list"

text \<open>
  The first statement of the loop body,
  \<^verbatim>\<open>
      try:
          mol_temp = Chem.MolFromSmiles(ML_data.iloc[i,1])
          fp_temp = calculate_fingerprint(mol_temp)
      except:
          print("Error getting fingerprint")
  \<close>
  The bare \<^verbatim>\<open>except\<close> catches every exception, so the statement always completes:
  it returns the variables as they are after it, and no exception.
\<close>

definition try_except :: "'mol rdkit \<Rightarrow> gas_df \<Rightarrow> nat \<Rightarrow> fp_state \<Rightarrow> fp_state" where
  "try_except lib df i st =
     (case row_fingerprint lib df i of
        Inr t \<Rightarrow> st\<lparr>fp_temp := Some t\<rparr>
      | Inl e \<Rightarrow> st\<lparr>printed := printed st @ [OutStr ''Error getting fingerprint'']\<rparr>)"

text \<open>
  One iteration of
  \<^verbatim>\<open>
  for i in range(1, len(ML_data)):
      try:
          mol_temp = Chem.MolFromSmiles(ML_data.iloc[i,1])
          fp_temp = calculate_fingerprint(mol_temp)
      except:
          print("Error getting fingerprint")
      fp = np.vstack([fp, fp_temp])
      print(i)
  \<close>
\<close>

definition loop_body :: "'mol rdkit \<Rightarrow> gas_df \<Rightarrow> nat \<Rightarrow> fp_state \<Rightarrow> exn + fp_state" where
  "loop_body lib df i st =
     (let st = try_except lib df i st
      in case fp_temp st of
           None \<Rightarrow> Inl NameError
         | Some t \<Rightarrow>
             (case vstack (fp st) t of
                Inl e \<Rightarrow> Inl e
              | Inr m \<Rightarrow> Inr (st\<lparr>fp := m, printed := printed st @ [OutNat i]\<rparr>)))"

fun stack_loop :: "'mol rdkit \<Rightarrow> gas_df \<Rightarrow> nat list \<Rightarrow> fp_state \<Rightarrow> exn + fp_state" where
  "stack_loop lib df [] st = Inr st"
| "stack_loop lib df (i # rest) st =
     (case loop_body lib df i st of
        Inl e \<Rightarrow> Inl e
      | Inr st' \<Rightarrow> stack_loop lib df rest st')"

text \<open>
  The whole cell: row 0 is fingerprinted before the loop, outside any \<^verbatim>\<open>try\<close>.
\<close>

definition fingerprint_cell :: "'mol rdkit \<Rightarrow> gas_df \<Rightarrow> exn + fp_state" where
  "fingerprint_cell lib ML_data =
     (case row_fingerprint lib ML_data 0 of
        Inl e \<Rightarrow> Inl e
      | Inr fp0 \<Rightarrow>
          stack_loop lib ML_data [1..<length ML_data]
            \<lparr>fp = fp0, fp_temp = None, printed = []\<rparr>)"

text \<open>
  A row with a valid SMILES string: RDKit parses it without raising, into a valid mol
  object.
\<close>

definition valid_row :: "'mol rdkit \<Rightarrow> gas_row \<Rightarrow> bool" where
  "valid_row lib r \<longleftrightarrow>
     (case MolFromSmiles lib (smiles r) of Inl e \<Rightarrow> False | Inr mol \<Rightarrow> valid_mol lib mol)"


section \<open>The k-means cells of the melting-point notebook\<close>

text \<open>
  \<^verbatim>\<open>
  n_clusters = 3 # set the number of clusters here
  kmeans = KMeans(n_clusters=n_clusters, random_state=42).fit(X_train[:,[0,1]])
  \<close>
  scikit-learn is not part of the repository. The fitted model is a parameter: the
  function that gives one sample its cluster index.
\<close>

definition n_clusters :: nat where
  "n_clusters = 3"

type_synonym kmeans = "vec \<Rightarrow> nat"

text \<open>
  The four arrays that \<^verbatim>\<open>train_test_split\<close> returned. The cells index them as
  NumPy arrays: a matrix is the list of its rows, a target vector the list of its
  entries.
\<close>

record split_data =
  X_train :: matrix
  X_test :: matrix
  y_train :: vec
  y_test :: vec

text \<open>\<^verbatim>\<open>X[:,[0,1]]\<close>: the first two columns, an IndexError if a row has fewer.\<close>

definition select_cols01 :: "matrix \<Rightarrow> exn + matrix" where
  "select_cols01 X =
     (if list_all (\<lambda>r. 2 \<le> length r) X then Inr (map (\<lambda>r. [r ! 0, r ! 1]) X)
      else Inl IndexError)"

text \<open>\<^verbatim>\<open>kmeans.predict(M)\<close>: one label per row of \<open>M\<close>.\<close>

definition predict :: "kmeans \<Rightarrow> matrix \<Rightarrow> nat list" where
  "predict km M = map km M"

text \<open>
  \<^verbatim>\<open>
  train_cluster_labels = kmeans.predict(X_train[:,[0,1]])
  test_cluster_labels = kmeans.predict(X_test[:,[0,1]])
  \<close>
\<close>

definition cluster_labels :: "kmeans \<Rightarrow> matrix \<Rightarrow> exn + nat list" where
  "cluster_labels km X =
     (case select_cols01 X of Inl e \<Rightarrow> Inl e | Inr M \<Rightarrow> Inr (predict km M))"

text \<open>\<^verbatim>\<open>np.where(labels == i)[0]\<close>: the positions that hold \<open>i\<close>, ascending.\<close>

definition np_where_eq :: "nat list \<Rightarrow> nat \<Rightarrow> nat list" where
  "np_where_eq labels i = filter (\<lambda>j. labels ! j = i) [0..<length labels]"

text \<open>
  \<^verbatim>\<open>X[idx, :]\<close> and \<^verbatim>\<open>y[idx]\<close> for an index array: the entries at those
  positions, an IndexError if a position is out of bounds.
\<close>

definition take_rows :: "'a list \<Rightarrow> nat list \<Rightarrow> exn + 'a list" where
  "take_rows X idx =
     (if list_all (\<lambda>j. j < length X) idx then Inr (map (\<lambda>j. X ! j) idx) else Inl IndexError)"

text \<open>The four dictionaries the cell fills, keyed by cluster index.\<close>

record cluster_dicts =
  X_train_cluster :: "nat \<rightharpoonup> matrix"
  X_test_cluster :: "nat \<rightharpoonup> matrix"
  y_train_cluster :: "nat \<rightharpoonup> vec"
  y_test_cluster :: "nat \<rightharpoonup> vec"

text \<open>
  One iteration of
  \<^verbatim>\<open>
  for i in range(n_clusters):
      idx_train = np.where(train_cluster_labels == i)[0]
      idx_test = np.where(test_cluster_labels == i)[0]
      X_train_cluster[i] = X_train[idx_train, :]
      X_test_cluster[i] = X_test[idx_test, :]
      y_train_cluster[i] = y_train[idx_train]
      y_test_cluster[i] = y_test[idx_test]
  \<close>
\<close>

definition cluster_body ::
  "split_data \<Rightarrow> nat list \<Rightarrow> nat list \<Rightarrow> nat \<Rightarrow> cluster_dicts \<Rightarrow> exn + cluster_dicts" where
  "cluster_body s train_cluster_labels test_cluster_labels i d =
     (let idx_train = np_where_eq train_cluster_labels i;
          idx_test = np_where_eq test_cluster_labels i
      in case take_rows (X_train s) idx_train of Inl e \<Rightarrow> Inl e | Inr a \<Rightarrow>
         (case take_rows (X_test s) idx_test of Inl e \<Rightarrow> Inl e | Inr b \<Rightarrow>
         (case take_rows (y_train s) idx_train of Inl e \<Rightarrow> Inl e | Inr c \<Rightarrow>
         (case take_rows (y_test s) idx_test of Inl e \<Rightarrow> Inl e | Inr c' \<Rightarrow>
            Inr (d\<lparr>X_train_cluster := (X_train_cluster d)(i \<mapsto> a),
                   X_test_cluster := (X_test_cluster d)(i \<mapsto> b),
                   y_train_cluster := (y_train_cluster d)(i \<mapsto> c),
                   y_test_cluster := (y_test_cluster d)(i \<mapsto> c')\<rparr>)))))"

fun cluster_loop ::
  "split_data \<Rightarrow> nat list \<Rightarrow> nat list \<Rightarrow> nat list \<Rightarrow> cluster_dicts \<Rightarrow> exn + cluster_dicts" where
  "cluster_loop s ltr lte [] d = Inr d"
| "cluster_loop s ltr lte (i # rest) d =
     (case cluster_body s ltr lte i d of
        Inl e \<Rightarrow> Inl e
      | Inr d' \<Rightarrow> cluster_loop s ltr lte rest d')"

text \<open>The cell: the four dictionaries start empty, the loop runs over \<open>range(n_clusters)\<close>.\<close>

definition cluster_cell :: "split_data \<Rightarrow> nat list \<Rightarrow> nat list \<Rightarrow> exn + cluster_dicts" where
  "cluster_cell s train_cluster_labels test_cluster_labels =
     cluster_loop s train_cluster_labels test_cluster_labels [0..<n_clusters]
       \<lparr>X_train_cluster = Map.empty, X_test_cluster = Map.empty,
        y_train_cluster = Map.empty, y_test_cluster = Map.empty\<rparr>"

text \<open>The number of rows a dictionary holds for cluster \<open>i\<close>.\<close>

definition rows_of :: "(nat \<rightharpoonup> 'a list) \<Rightarrow> nat \<Rightarrow> nat" where
  "rows_of m i = (case m i of None \<Rightarrow> 0 | Some a \<Rightarrow> length a)"

text \<open>
  Closed forms used in the proofs: the entries of \<open>X\<close> that carry label \<open>i\<close>, and the
  four assignments of one iteration when no index is out of bounds.
\<close>

definition pick :: "'a list \<Rightarrow> nat list \<Rightarrow> nat \<Rightarrow> 'a list" where
  "pick X labels i = map (\<lambda>j. X ! j) (np_where_eq labels i)"

definition assign_cluster ::
  "split_data \<Rightarrow> nat list \<Rightarrow> nat list \<Rightarrow> cluster_dicts \<Rightarrow> nat \<Rightarrow> cluster_dicts" where
  "assign_cluster s ltr lte d i =
     d\<lparr>X_train_cluster := (X_train_cluster d)(i \<mapsto> pick (X_train s) ltr i),
       X_test_cluster := (X_test_cluster d)(i \<mapsto> pick (X_test s) lte i),
       y_train_cluster := (y_train_cluster d)(i \<mapsto> pick (y_train s) ltr i),
       y_test_cluster := (y_test_cluster d)(i \<mapsto> pick (y_test s) lte i)\<rparr>"

section \<open>The CNN classifier of the space-group notebook\<close>

text \<open>
  Keras is not part of the repository: a layer is the record of its constructor
  arguments, and a \<^verbatim>\<open>Sequential\<close> model is the list of the layers added to it.
  The constructors are the layer classes the notebook imports and its instructions name.
\<close>

datatype activation = Relu | Softmax

datatype padding_mode = Valid | Same

datatype layer =
    Input "nat list"
  | BatchNormalization real real "vec list option"
  | Conv1D nat nat "activation option" padding_mode "real option"
  | MaxPooling1D nat
  | Dropout real
  | Flatten
  | Dense nat "activation option" "real option"

text \<open>
  \<^verbatim>\<open>
  input_shape = (209,1)
  l2_lambda = 1e-5 # regularization parameter
  num_classes = 8
  \<close>
\<close>

definition input_shape :: "nat list" where
  "input_shape = [209, 1]"

definition l2_lambda :: real where
  "l2_lambda = 1 / 10 ^ 5"

definition num_classes :: nat where
  "num_classes = 8"

definition Sequential :: "layer list" where
  "Sequential = []"

definition add :: "layer list \<Rightarrow> layer \<Rightarrow> layer list" where
  "add model l = model @ [l]"

text \<open>
  \<^verbatim>\<open>
  def CNN_classifier(input_shape=input_shape, num_classes=num_classes):
      # Define the sequential model:
      model = Sequential()
      # two given layers:
      model.add(Input(shape=input_shape))
      model.add(BatchNormalization(epsilon=1e-06, momentum=0.9, weights=None))
      # Add the rest of the layers
      return model
  \<close>
  Between the last comment and the return statement the function body is blank.
\<close>

definition CNN_classifier :: "nat list \<Rightarrow> nat \<Rightarrow> layer list" where
  "CNN_classifier ishape ncls =
     (let model = Sequential;
          model = add model (Input ishape);
          model = add model (BatchNormalization (1 / 10 ^ 6) (9 / 10) None)
      in model)"

text \<open>
  The architecture as the specification and the notebook's instructions describe it,
  layer by layer (\<^verbatim>\<open>MaxPooling1D\<close> with its default pool size 2).
\<close>

definition described_architecture :: "layer list" where
  "described_architecture =
     [Input [209, 1],
      BatchNormalization (1 / 10 ^ 6) (9 / 10) None,
      Conv1D 256 32 (Some Relu) Same (Some l2_lambda),
      BatchNormalization (1 / 10 ^ 6) (9 / 10) None,
      Conv1D 64 32 (Some Relu) Same (Some l2_lambda),
      BatchNormalization (1 / 10 ^ 6) (9 / 10) None,
      MaxPooling1D 2,
      Dropout (1 / 2),
      Flatten,
      Dense 128 (Some Relu) (Some l2_lambda),
      BatchNormalization (1 / 10 ^ 6) (9 / 10) None,
      Dropout (1 / 2),
      Dense 8 (Some Softmax) (Some l2_lambda)]"

section \<open>Concrete inputs\<close>

text \<open>
  A stand-in for RDKit on which the cells can be evaluated. A missing SMILES cell makes
  \<open>MolFromSmiles\<close> raise; a string with a question mark parses to no molecule, on which
  the fingerprint calls raise; any other string gives bit vectors of the documented
  sizes.
\<close>

definition stub_rdkit :: "string option rdkit" where
  "stub_rdkit =
     \<lparr>MolFromSmiles = (\<lambda>s. case s of None \<Rightarrow> Inl ''TypeError''
                              | Some t \<Rightarrow> Inr (if CHR ''?'' \<in> set t then None else Some t)),
      RDKFingerprint = (\<lambda>m. case m of None \<Rightarrow> Inl ''ArgumentError''
                              | Some t \<Rightarrow> Inr (map (\<lambda>i. i < length t) [0..<fpSize])),
      GenMACCSKeys = (\<lambda>m. case m of None \<Rightarrow> Inl ''ArgumentError''
                              | Some t \<Rightarrow> Inr (map (\<lambda>i. i < length t) [0..<maccsSize]))\<rparr>"

text \<open>A dataframe of three rows; the last one has no SMILES string.\<close>

definition example_df :: gas_df where
  "example_df =
     [\<lparr>polymer = Some ''polyaniline'', smiles = Some ''c1ccccc1N'', perm = Some 2\<rparr>,
      \<lparr>polymer = Some ''polyethylene'', smiles = Some ''CC'', perm = Some 3\<rparr>,
      \<lparr>polymer = Some ''unknown'', smiles = None, perm = None\<rparr>]"

text \<open>A fitted model with three clusters, and a split with three training rows and one test row.\<close>

definition example_kmeans :: kmeans where
  "example_kmeans v = (if hd v < 1 then 0 else if hd v < 2 then 1 else 2)"

definition example_split :: split_data where
  "example_split =
     \<lparr>X_train = [[0, 5, 7], [2, 5, 7], [3, 1, 1]], X_test = [[1, 1, 1]],
      y_train = [10, 20, 30], y_test = [40]\<rparr>"

section \<open>Properties\<close>

subsection \<open>Cleaning\<close>

lemma clean_all_id: "clean_all fs = fs"
  by (simp add: clean_all_def clean_df_def)

text \<open>
  Claim C8. As shipped, \<open>clean_df\<close> is the identity function: it returns its input
  dataframe unchanged, so after it has been applied to the six gas-specific dataframes
  each of them still holds every row with a NaN entry and every row with a duplicate
  SMILES value that it held before.
\<close>

theorem clean_df_identity:
  "clean_df df = df
   \<and> clean_all (split_gases data) = split_gases data
   \<and> nan_rows (clean_df df) = nan_rows df
   \<and> duplicate_rows [] (clean_df df) = duplicate_rows [] df
   \<and> nan_rows (O2_data (clean_all (split_gases data))) = nan_rows (loc_gas O2 data)
   \<and> duplicate_rows [] (O2_data (clean_all (split_gases data)))
       = duplicate_rows [] (loc_gas O2 data)"
  by (simp add: clean_all_id) (simp add: clean_df_def split_gases_def)

subsection \<open>The fingerprint helpers\<close>

lemma ConvertToNumpyArray_length: "length (ConvertToNumpyArray bv arr) = length bv"
  by (simp add: ConvertToNumpyArray_def)

lemma ConvertToNumpyArray_binary: "set (ConvertToNumpyArray bv arr) \<subseteq> {0, 1}"
  by (auto simp: ConvertToNumpyArray_def)

lemma np_fromiter_ToBitString:
  "np_fromiter (ToBitString bv) = Inr (map (\<lambda>b. if b then 1 else 0) bv)"
  by (induction bv) (simp_all add: ToBitString_def float_of_char_def)

lemma calculate_fingerprint_Inr:
  "RDKFingerprint lib mol = Inr bv \<Longrightarrow>
   calculate_fingerprint lib mol = Inr [ConvertToNumpyArray bv (np_zeros 1)]"
  by (simp add: calculate_fingerprint_def)

lemma calculate_fingerprint_valid:
  assumes "valid_mol lib mol"
  shows "\<exists>arr. calculate_fingerprint lib mol = Inr [arr] \<and> length arr = fpSize \<and> set arr \<subseteq> {0, 1}"
proof -
  from assms obtain bv where bv: "RDKFingerprint lib mol = Inr bv" "length bv = fpSize"
    by (auto simp: valid_mol_def split: sum.splits)
  show ?thesis
    using bv ConvertToNumpyArray_binary[of bv "np_zeros 1"]
    by (simp add: calculate_fingerprint_Inr ConvertToNumpyArray_length)
qed

text \<open>
  Claim C2, as amended. For every valid mol object, \<open>calculate_fingerprint\<close> returns a
  one-element list whose single element is a vector of exactly 2048 entries, each 0 or
  1, and \<open>get_MACCS\<close> returns a vector of exactly 167 entries, each 0.0 or 1.0.
\<close>

theorem fingerprint_helpers_shape:
  assumes "valid_mol lib mol"
  shows "(\<exists>arr. calculate_fingerprint lib mol = Inr [arr]
               \<and> length arr = 2048 \<and> set arr \<subseteq> {0, 1})
         \<and> (\<exists>v. get_MACCS lib mol = Inr v \<and> length v = 167 \<and> set v \<subseteq> {0, 1})"
proof
  show "\<exists>arr. calculate_fingerprint lib mol = Inr [arr] \<and> length arr = 2048 \<and> set arr \<subseteq> {0, 1}"
    using calculate_fingerprint_valid[OF assms] by (simp add: fpSize_def)
next
  from assms obtain kv where kv: "GenMACCSKeys lib mol = Inr kv" "length kv = maccsSize"
    by (auto simp: valid_mol_def split: sum.splits)
  have "get_MACCS lib mol = Inr (map (\<lambda>b. if b then 1 else 0) kv)"
    using kv by (simp add: get_MACCS_def np_fromiter_ToBitString)
  moreover have "set (map (\<lambda>b. if b then 1 else 0::real) kv) \<subseteq> {0, 1}"
    by auto
  ultimately show "\<exists>v. get_MACCS lib mol = Inr v \<and> length v = 167 \<and> set v \<subseteq> {0, 1}"
    using kv by (simp add: maccsSize_def)
qed

text \<open>The stand-in library at the molecule parsed from \<open>CCO\<close>.\<close>

theorem fingerprint_helpers_shape_witness:
  "valid_mol stub_rdkit (Some ''CCO'')
   \<and> (\<exists>arr. calculate_fingerprint stub_rdkit (Some ''CCO'') = Inr [arr] \<and> length arr = 2048)
   \<and> (\<exists>v. get_MACCS stub_rdkit (Some ''CCO'') = Inr v \<and> length v = 167)"
proof -
  have v: "valid_mol stub_rdkit (Some ''CCO'')"
    by (simp add: valid_mol_def stub_rdkit_def fpSize_def maccsSize_def)
  show ?thesis
    using v fingerprint_helpers_shape[OF v] by blast
qed

text \<open>
  Claim C2 as stated says that \<open>calculate_fingerprint(mol)\<close> itself is the vector of
  2048 entries. For a valid mol object the value returned is the list \<open>fps\<close>, which
  has one entry (the vector), not 2048.
\<close>

theorem calculate_fingerprint_vector_counterexample:
  "valid_mol stub_rdkit (Some ''CCO'')
   \<and> map_sum id length (calculate_fingerprint stub_rdkit (Some ''CCO'')) = Inr 1
   \<and> map_sum id length (calculate_fingerprint stub_rdkit (Some ''CCO'')) \<noteq> Inr 2048"
  by (simp add: valid_mol_def stub_rdkit_def fpSize_def maccsSize_def calculate_fingerprint_def)

subsection \<open>The stacking cell on valid rows\<close>

lemma vstack_same:
  assumes "\<forall>r\<in>set a. length r = n" "\<forall>r\<in>set b. length r = n"
  shows "vstack a b = Inr (a @ b)"
  using assms by (simp add: vstack_def list_all_iff)

lemma row_fingerprint_valid:
  assumes "i < length df" "valid_row lib (df ! i)"
  shows "\<exists>arr. row_fingerprint lib df i = Inr [arr] \<and> length arr = fpSize"
proof -
  from assms(2) obtain mol where mol: "MolFromSmiles lib (smiles (df ! i)) = Inr mol" "valid_mol lib mol"
    by (auto simp: valid_row_def split: sum.splits)
  from calculate_fingerprint_valid[OF mol(2)] mol(1) assms(1) show ?thesis
    by (auto simp: row_fingerprint_def iloc_smiles_def)
qed

lemma loop_body_valid:
  assumes "i < length df" "valid_row lib (df ! i)" "list_all (\<lambda>r. length r = fpSize) (fp st)"
  shows "\<exists>st'. loop_body lib df i st = Inr st'
           \<and> length (fp st') = Suc (length (fp st))
           \<and> list_all (\<lambda>r. length r = fpSize) (fp st')"
proof -
  from row_fingerprint_valid[OF assms(1,2)] obtain arr
    where arr: "row_fingerprint lib df i = Inr [arr]" "length arr = fpSize" by blast
  have "vstack (fp st) [arr] = Inr (fp st @ [arr])"
    using assms(3) arr(2) by (intro vstack_same[where n = fpSize]) (simp_all add: list_all_iff)
  then show ?thesis
    using arr assms(3) by (simp add: loop_body_def try_except_def)
qed

lemma stack_loop_valid:
  assumes "\<forall>i\<in>set idx. i < length df \<and> valid_row lib (df ! i)"
    and "list_all (\<lambda>r. length r = fpSize) (fp st)"
  shows "\<exists>st'. stack_loop lib df idx st = Inr st'
           \<and> length (fp st') = length (fp st) + length idx
           \<and> list_all (\<lambda>r. length r = fpSize) (fp st')"
  using assms
proof (induction idx arbitrary: st)
  case Nil
  then show ?case by simp
next
  case (Cons i rest)
  from Cons.prems have i: "i < length df" "valid_row lib (df ! i)" by simp_all
  from loop_body_valid[OF i Cons.prems(2)] obtain st1 where
    st1: "loop_body lib df i st = Inr st1" "length (fp st1) = Suc (length (fp st))"
      "list_all (\<lambda>r. length r = fpSize) (fp st1)" by blast
  from Cons.prems(1) have "\<forall>i\<in>set rest. i < length df \<and> valid_row lib (df ! i)" by simp
  from Cons.IH[OF this st1(3)] st1(1,2) show ?case by auto
qed

text \<open>
  Claim C3. For every gas-specific dataframe with \<open>N \<ge> 1\<close> rows of valid SMILES
  strings, the fingerprint-stacking cell ends normally with an array \<open>fp\<close> of exactly
  \<open>N\<close> rows, each of length 2048, so \<open>fp\<close> has as many rows as the permeability
  vector \<open>perms\<close> taken from the same dataframe has entries.
\<close>

theorem fingerprint_cell_shape:
  assumes "ML_data \<noteq> []" and "\<forall>r\<in>set ML_data. valid_row lib r"
  shows "\<exists>st. fingerprint_cell lib ML_data = Inr st
           \<and> length (fp st) = length ML_data
           \<and> (\<forall>row\<in>set (fp st). length row = 2048)
           \<and> length (fp st) = length (perms_of ML_data)"
proof -
  have len: "0 < length ML_data" using assms(1) by simp
  have v0: "valid_row lib (ML_data ! 0)" using assms len by simp
  from row_fingerprint_valid[OF len v0] obtain arr
    where arr: "row_fingerprint lib ML_data 0 = Inr [arr]" "length arr = fpSize" by blast
  let ?st0 = "\<lparr>fp = [arr], fp_temp = None, printed = []\<rparr>"
  have idx: "\<forall>i\<in>set [1..<length ML_data]. i < length ML_data \<and> valid_row lib (ML_data ! i)"
    using assms(2) by simp
  have ok0: "list_all (\<lambda>r. length r = fpSize) (fp ?st0)" using arr(2) by simp
  from stack_loop_valid[OF idx ok0] obtain st' where
    st': "stack_loop lib ML_data [1..<length ML_data] ?st0 = Inr st'"
      "length (fp st') = length (fp ?st0) + length [1..<length ML_data]"
      "list_all (\<lambda>r. length r = fpSize) (fp st')" by blast
  have "fingerprint_cell lib ML_data = Inr st'"
    using arr(1) st'(1) by (simp add: fingerprint_cell_def)
  moreover have "length (fp st') = length ML_data"
    using st'(2) len by simp
  ultimately show ?thesis
    using st'(3) by (simp add: list_all_iff fpSize_def perms_of_def)
qed

text \<open>The first two rows of the example dataframe.\<close>

theorem fingerprint_cell_shape_witness:
  "take 2 example_df \<noteq> [] \<and> list_all (valid_row stub_rdkit) (take 2 example_df)
   \<and> (\<exists>st. fingerprint_cell stub_rdkit (take 2 example_df) = Inr st \<and> length (fp st) = 2
           \<and> length (perms_of (take 2 example_df)) = 2)"
proof -
  have ne: "take 2 example_df \<noteq> []" by (simp add: example_df_def)
  have v: "\<forall>r\<in>set (take 2 example_df). valid_row stub_rdkit r"
    by (simp add: example_df_def valid_row_def stub_rdkit_def valid_mol_def)
  have l: "length (take 2 example_df) = 2" by (simp add: example_df_def)
  show ?thesis
    using ne v l fingerprint_cell_shape[OF ne v] by (auto simp: list_all_iff)
qed

subsection \<open>The stacking cell on rows that raise\<close>










subsection \<open>The per-cluster selection\<close>

lemma sum_filter_classes:
  assumes "\<forall>x\<in>set xs. f x < (k::nat)"
  shows "(\<Sum>i<k. length (filter (\<lambda>x. f x = i) xs)) = length xs"
  using assms
proof (induction xs)
  case Nil
  show ?case by simp
next
  case (Cons x xs)
  have fx: "f x < k" using Cons.prems by simp
  have "(\<Sum>i<k. length (filter (\<lambda>y. f y = i) (x # xs)))
        = (\<Sum>i<k. (if f x = i then 1 else 0) + length (filter (\<lambda>y. f y = i) xs))"
    by (intro sum.cong) auto
  also have "\<dots> = (\<Sum>i<k. (if f x = i then 1 else 0)) + (\<Sum>i<k. length (filter (\<lambda>y. f y = i) xs))"
    by (simp add: sum.distrib)
  also have "(\<Sum>i<k. (if f x = i then 1 else 0 :: nat)) = 1"
    using fx by simp
  finally show ?case using Cons by simp
qed

lemma np_where_eq_bound: "j \<in> set (np_where_eq labels i) \<Longrightarrow> j < length labels"
  by (simp add: np_where_eq_def)

lemma np_where_eq_mem: "j \<in> set (np_where_eq labels i) \<longleftrightarrow> j < length labels \<and> labels ! j = i"
  by (auto simp: np_where_eq_def)

lemma sum_np_where_eq:
  assumes "\<forall>l\<in>set labels. l < k"
  shows "(\<Sum>i<k. length (np_where_eq labels i)) = length labels"
proof -
  have "\<forall>j\<in>set [0..<length labels]. labels ! j < k" using assms by simp
  from sum_filter_classes[OF this] show ?thesis by (simp add: np_where_eq_def)
qed

lemma take_rows_ok:
  assumes "length X = length labels"
  shows "take_rows X (np_where_eq labels i) = Inr (map (\<lambda>j. X ! j) (np_where_eq labels i))"
  using assms by (simp add: take_rows_def list_all_iff np_where_eq_mem)

lemma take_rows_pick:
  "length X = length labels \<Longrightarrow> take_rows X (np_where_eq labels i) = Inr (pick X labels i)"
  by (simp add: take_rows_ok pick_def)

lemma length_pick: "length (pick X labels i) = length (np_where_eq labels i)"
  by (simp add: pick_def)

lemma cluster_body_ok:
  assumes "length (X_train s) = length ltr" "length (y_train s) = length ltr"
    and "length (X_test s) = length lte" "length (y_test s) = length lte"
  shows "cluster_body s ltr lte i d = Inr (assign_cluster s ltr lte d i)"
  using assms by (simp add: cluster_body_def take_rows_pick assign_cluster_def)

lemma cluster_loop_ok:
  assumes "length (X_train s) = length ltr" "length (y_train s) = length ltr"
    and "length (X_test s) = length lte" "length (y_test s) = length lte"
  shows "cluster_loop s ltr lte idx d = Inr (foldl (assign_cluster s ltr lte) d idx)"
  by (induction idx arbitrary: d) (simp_all add: cluster_body_ok[OF assms])

lemma foldl_assign_cluster:
  "X_train_cluster (foldl (assign_cluster s ltr lte) d idx) i
     = (if i \<in> set idx then Some (pick (X_train s) ltr i) else X_train_cluster d i)"
  "X_test_cluster (foldl (assign_cluster s ltr lte) d idx) i
     = (if i \<in> set idx then Some (pick (X_test s) lte i) else X_test_cluster d i)"
  "y_train_cluster (foldl (assign_cluster s ltr lte) d idx) i
     = (if i \<in> set idx then Some (pick (y_train s) ltr i) else y_train_cluster d i)"
  "y_test_cluster (foldl (assign_cluster s ltr lte) d idx) i
     = (if i \<in> set idx then Some (pick (y_test s) lte i) else y_test_cluster d i)"
  by (induction idx arbitrary: d) (simp_all add: assign_cluster_def)

lemma cluster_labels_ok:
  assumes "\<forall>r\<in>set X. 2 \<le> length r"
  shows "cluster_labels km X = Inr (map (\<lambda>r. km [r ! 0, r ! 1]) X)"
  using assms by (simp add: cluster_labels_def select_cols01_def predict_def list_all_iff)

lemma distinct_np_where_eq: "distinct (np_where_eq labels i)"
  by (simp add: np_where_eq_def)

lemma unique_cluster:
  assumes "j < length labels" "labels ! j < k"
  shows "\<exists>!i. i < k \<and> j \<in> set (np_where_eq labels i)"
  using assms by (auto simp: np_where_eq_mem)

text \<open>
  Claim C5. For every training and test set (with the two clustering columns, and
  with as many targets as rows) and every fitted k-means model with
  \<open>n_clusters = 3\<close>, the per-cluster selection loop partitions the rows. The labels
  are the model's predictions on the first two columns; for each cluster \<open>i\<close> in 0..2
  the dictionaries hold, under key \<open>i\<close>, the rows of \<open>X_train\<close> and the entries of
  \<open>y_train\<close> at the positions whose label is \<open>i\<close>, each position once; every row
  index is among the positions of exactly one cluster; \<open>X_train_cluster[i]\<close> and
  \<open>y_train_cluster[i]\<close> hold equally many rows for each \<open>i\<close>, and the cluster row
  counts sum to the number of rows of \<open>X_train\<close>; likewise for the test set.
\<close>

theorem cluster_partition:
  assumes "\<forall>v. km v < n_clusters"
    and "\<forall>r\<in>set (X_train s). 2 \<le> length r" and "\<forall>r\<in>set (X_test s). 2 \<le> length r"
    and "length (y_train s) = length (X_train s)" and "length (y_test s) = length (X_test s)"
  shows "\<exists>ltr lte d.
           cluster_labels km (X_train s) = Inr ltr \<and> cluster_labels km (X_test s) = Inr lte
         \<and> cluster_cell s ltr lte = Inr d
         \<and> ltr = map (\<lambda>r. km [r ! 0, r ! 1]) (X_train s)
         \<and> lte = map (\<lambda>r. km [r ! 0, r ! 1]) (X_test s)
         \<and> (\<forall>i<3. X_train_cluster d i = Some (map (\<lambda>j. X_train s ! j) (np_where_eq ltr i))
                  \<and> y_train_cluster d i = Some (map (\<lambda>j. y_train s ! j) (np_where_eq ltr i))
                  \<and> X_test_cluster d i = Some (map (\<lambda>j. X_test s ! j) (np_where_eq lte i))
                  \<and> y_test_cluster d i = Some (map (\<lambda>j. y_test s ! j) (np_where_eq lte i)))
         \<and> (\<forall>i j. (j \<in> set (np_where_eq ltr i) \<longleftrightarrow> j < length (X_train s) \<and> ltr ! j = i)
                  \<and> (j \<in> set (np_where_eq lte i) \<longleftrightarrow> j < length (X_test s) \<and> lte ! j = i))
         \<and> (\<forall>i. distinct (np_where_eq ltr i) \<and> distinct (np_where_eq lte i))
         \<and> (\<forall>j<length (X_train s). \<exists>!i. i < 3 \<and> j \<in> set (np_where_eq ltr i))
         \<and> (\<forall>j<length (X_test s). \<exists>!i. i < 3 \<and> j \<in> set (np_where_eq lte i))
         \<and> dom (X_train_cluster d) = {..<3} \<and> dom (y_train_cluster d) = {..<3}
         \<and> dom (X_test_cluster d) = {..<3} \<and> dom (y_test_cluster d) = {..<3}
         \<and> (\<forall>i<3. rows_of (X_train_cluster d) i = rows_of (y_train_cluster d) i
                  \<and> rows_of (X_test_cluster d) i = rows_of (y_test_cluster d) i)
         \<and> (\<Sum>i<3. rows_of (X_train_cluster d) i) = length (X_train s)
         \<and> (\<Sum>i<3. rows_of (X_test_cluster d) i) = length (X_test s)"
proof -
  define ltr where "ltr = map (\<lambda>r. km [r ! 0, r ! 1]) (X_train s)"
  define lte where "lte = map (\<lambda>r. km [r ! 0, r ! 1]) (X_test s)"
  have ltr: "cluster_labels km (X_train s) = Inr ltr"
    unfolding ltr_def by (rule cluster_labels_ok[OF assms(2)])
  have lte: "cluster_labels km (X_test s) = Inr lte"
    unfolding lte_def by (rule cluster_labels_ok[OF assms(3)])
  have btr: "\<forall>l\<in>set ltr. l < n_clusters" using assms(1) by (auto simp: ltr_def)
  have bte: "\<forall>l\<in>set lte. l < n_clusters" using assms(1) by (auto simp: lte_def)
  have lens: "length (X_train s) = length ltr" "length (y_train s) = length ltr"
    "length (X_test s) = length lte" "length (y_test s) = length lte"
    using assms(4,5) by (simp_all add: ltr_def lte_def)
  let ?d0 = "\<lparr>X_train_cluster = Map.empty, X_test_cluster = Map.empty,
        y_train_cluster = Map.empty, y_test_cluster = Map.empty\<rparr>"
  define d where "d = foldl (assign_cluster s ltr lte) ?d0 [0..<n_clusters]"
  have d: "cluster_loop s ltr lte [0..<n_clusters] ?d0 = Inr d"
    unfolding d_def by (rule cluster_loop_ok[OF lens])
  have xtr: "\<And>i. X_train_cluster d i = (if i < n_clusters then Some (pick (X_train s) ltr i) else None)"
    and xte: "\<And>i. X_test_cluster d i = (if i < n_clusters then Some (pick (X_test s) lte i) else None)"
    and ytr: "\<And>i. y_train_cluster d i = (if i < n_clusters then Some (pick (y_train s) ltr i) else None)"
    and yte: "\<And>i. y_test_cluster d i = (if i < n_clusters then Some (pick (y_test s) lte i) else None)"
    unfolding d_def by (simp_all add: foldl_assign_cluster)
  have cell: "cluster_cell s ltr lte = Inr d"
    using d by (simp add: cluster_cell_def)
  have n3: "n_clusters = 3" by (simp add: n_clusters_def)
  have l1: "ltr = map (\<lambda>r. km [r ! 0, r ! 1]) (X_train s)" by (rule ltr_def)
  have l2: "lte = map (\<lambda>r. km [r ! 0, r ! 1]) (X_test s)" by (rule lte_def)
  have content: "\<forall>i<3. X_train_cluster d i = Some (map (\<lambda>j. X_train s ! j) (np_where_eq ltr i))
                  \<and> y_train_cluster d i = Some (map (\<lambda>j. y_train s ! j) (np_where_eq ltr i))
                  \<and> X_test_cluster d i = Some (map (\<lambda>j. X_test s ! j) (np_where_eq lte i))
                  \<and> y_test_cluster d i = Some (map (\<lambda>j. y_test s ! j) (np_where_eq lte i))"
    by (simp add: xtr xte ytr yte n3 pick_def)
  have mem: "\<forall>i j. (j \<in> set (np_where_eq ltr i) \<longleftrightarrow> j < length (X_train s) \<and> ltr ! j = i)
                  \<and> (j \<in> set (np_where_eq lte i) \<longleftrightarrow> j < length (X_test s) \<and> lte ! j = i)"
    by (simp add: np_where_eq_mem lens)
  have dist: "\<forall>i. distinct (np_where_eq ltr i) \<and> distinct (np_where_eq lte i)"
    by (simp add: distinct_np_where_eq)
  have p1: "\<forall>j<length (X_train s). \<exists>!i. i < 3 \<and> j \<in> set (np_where_eq ltr i)"
    using unique_cluster[of _ ltr 3] btr lens(1) by (simp add: n3)
  have p2: "\<forall>j<length (X_test s). \<exists>!i. i < 3 \<and> j \<in> set (np_where_eq lte i)"
    using unique_cluster[of _ lte 3] bte lens(3) by (simp add: n3)
  have doms: "dom (X_train_cluster d) = {..<3}" "dom (y_train_cluster d) = {..<3}"
    "dom (X_test_cluster d) = {..<3}" "dom (y_test_cluster d) = {..<3}"
    by (auto simp: dom_def xtr xte ytr yte n3)
  have eq: "\<forall>i<3. rows_of (X_train_cluster d) i = rows_of (y_train_cluster d) i
                  \<and> rows_of (X_test_cluster d) i = rows_of (y_test_cluster d) i"
    by (simp add: rows_of_def xtr xte ytr yte n3 length_pick)
  have "(\<Sum>i<3. rows_of (X_train_cluster d) i) = (\<Sum>i<3. length (np_where_eq ltr i))"
    by (intro sum.cong) (simp_all add: rows_of_def xtr n3 length_pick)
  then have s1: "(\<Sum>i<3. rows_of (X_train_cluster d) i) = length (X_train s)"
    using sum_np_where_eq[of ltr 3] btr lens(1) by (simp add: n3)
  have "(\<Sum>i<3. rows_of (X_test_cluster d) i) = (\<Sum>i<3. length (np_where_eq lte i))"
    by (intro sum.cong) (simp_all add: rows_of_def xte n3 length_pick)
  then have s2: "(\<Sum>i<3. rows_of (X_test_cluster d) i) = length (X_test s)"
    using sum_np_where_eq[of lte 3] bte lens(3) by (simp add: n3)
  from ltr lte cell l1 l2 content mem dist p1 p2 doms eq s1 s2 show ?thesis
    by - (rule exI[of _ ltr], rule exI[of _ lte], rule exI[of _ d], (intro conjI; assumption))
qed

text \<open>The example model and split: the three training rows fall into clusters 0, 2 and 2.\<close>

theorem cluster_partition_witness:
  "(\<forall>v. example_kmeans v < n_clusters)
   \<and> list_all (\<lambda>r. 2 \<le> length r) (X_train example_split)
   \<and> list_all (\<lambda>r. 2 \<le> length r) (X_test example_split)
   \<and> length (y_train example_split) = length (X_train example_split)
   \<and> length (y_test example_split) = length (X_test example_split)
   \<and> (\<exists>ltr lte d. cluster_labels example_kmeans (X_train example_split) = Inr ltr
         \<and> cluster_labels example_kmeans (X_test example_split) = Inr lte
         \<and> cluster_cell example_split ltr lte = Inr d
         \<and> ltr = [0, 2, 2] \<and> lte = [1]
         \<and> X_train_cluster d 0 = Some [[0, 5, 7]]
         \<and> X_train_cluster d 1 = Some []
         \<and> X_train_cluster d 2 = Some [[2, 5, 7], [3, 1, 1]]
         \<and> y_train_cluster d 2 = Some [20, 30]
         \<and> X_test_cluster d 1 = Some [[1, 1, 1]]
         \<and> y_test_cluster d 1 = Some [40]
         \<and> (\<Sum>i<3. rows_of (X_train_cluster d) i) = 3
         \<and> (\<Sum>i<3. rows_of (X_test_cluster d) i) = 1)"
proof -
  have k: "\<forall>v. example_kmeans v < n_clusters"
    by (simp add: example_kmeans_def n_clusters_def)
  have w: "\<forall>r\<in>set (X_train example_split). 2 \<le> length r"
    "\<forall>r\<in>set (X_test example_split). 2 \<le> length r"
    by (simp_all add: example_split_def)
  have l: "length (y_train example_split) = length (X_train example_split)"
    "length (y_test example_split) = length (X_test example_split)"
    by (simp_all add: example_split_def)
  have n: "length (X_train example_split) = 3" "length (X_test example_split) = 1"
    by (simp_all add: example_split_def)
  have hyps: "(\<forall>v. example_kmeans v < n_clusters)
   \<and> list_all (\<lambda>r. 2 \<le> length r) (X_train example_split)
   \<and> list_all (\<lambda>r. 2 \<le> length r) (X_test example_split)
   \<and> length (y_train example_split) = length (X_train example_split)
   \<and> length (y_test example_split) = length (X_test example_split)"
    using k w l by (simp only: list_all_iff) simp
  from cluster_partition[OF k w l] obtain ltr lte d where r:
    "cluster_labels example_kmeans (X_train example_split) = Inr ltr"
    "cluster_labels example_kmeans (X_test example_split) = Inr lte"
    "cluster_cell example_split ltr lte = Inr d"
    "ltr = map (\<lambda>r. example_kmeans [r ! 0, r ! 1]) (X_train example_split)"
    "lte = map (\<lambda>r. example_kmeans [r ! 0, r ! 1]) (X_test example_split)"
    "\<forall>i<3. X_train_cluster d i = Some (map (\<lambda>j. X_train example_split ! j) (np_where_eq ltr i))
         \<and> y_train_cluster d i = Some (map (\<lambda>j. y_train example_split ! j) (np_where_eq ltr i))
         \<and> X_test_cluster d i = Some (map (\<lambda>j. X_test example_split ! j) (np_where_eq lte i))
         \<and> y_test_cluster d i = Some (map (\<lambda>j. y_test example_split ! j) (np_where_eq lte i))"
    "(\<Sum>i<3. rows_of (X_train_cluster d) i) = length (X_train example_split)"
    "(\<Sum>i<3. rows_of (X_test_cluster d) i) = length (X_test example_split)"
    by (elim exE conjE)
  have ltr: "ltr = [0, 2, 2]"
    using r(4) by (simp add: example_split_def example_kmeans_def)
  have lte: "lte = [1]"
    using r(5) by (simp add: example_split_def example_kmeans_def)
  have w0: "np_where_eq [0, 2, 2] 0 = [0]" "np_where_eq [0, 2, 2] (Suc 0) = []"
    "np_where_eq [0, 2, 2] 2 = [1, 2]" "np_where_eq [Suc 0] (Suc 0) = [0]"
    by (simp_all add: np_where_eq_def upt_rec[of 0] upt_rec[of "Suc 0"] upt_rec[of 2]
        upt_rec[of 3])
  have c0: "X_train_cluster d 0 = Some [[0, 5, 7]]"
    using r(6)[rule_format, of 0] by (simp add: ltr w0 example_split_def)
  have c1: "X_train_cluster d 1 = Some []"
    using r(6)[rule_format, of 1] by (simp add: ltr w0 example_split_def)
  have c2: "X_train_cluster d 2 = Some [[2, 5, 7], [3, 1, 1]]"
    using r(6)[rule_format, of 2] by (simp add: ltr w0 example_split_def)
  have c3: "y_train_cluster d 2 = Some [20, 30]"
    using r(6)[rule_format, of 2] by (simp add: ltr w0 example_split_def)
  have c4: "X_test_cluster d 1 = Some [[1, 1, 1]]"
    using r(6)[rule_format, of 1] by (simp add: lte w0 example_split_def)
  have c5: "y_test_cluster d 1 = Some [40]"
    using r(6)[rule_format, of 1] by (simp add: lte w0 example_split_def)
  have "\<exists>ltr lte d. cluster_labels example_kmeans (X_train example_split) = Inr ltr
         \<and> cluster_labels example_kmeans (X_test example_split) = Inr lte
         \<and> cluster_cell example_split ltr lte = Inr d
         \<and> ltr = [0, 2, 2] \<and> lte = [1]
         \<and> X_train_cluster d 0 = Some [[0, 5, 7]]
         \<and> X_train_cluster d 1 = Some []
         \<and> X_train_cluster d 2 = Some [[2, 5, 7], [3, 1, 1]]
         \<and> y_train_cluster d 2 = Some [20, 30]
         \<and> X_test_cluster d 1 = Some [[1, 1, 1]]
         \<and> y_test_cluster d 1 = Some [40]
         \<and> (\<Sum>i<3. rows_of (X_train_cluster d) i) = 3
         \<and> (\<Sum>i<3. rows_of (X_test_cluster d) i) = 1"
    using r(1,2,3) ltr lte c0 c1 c2 c3 c4 c5 r(7,8)[unfolded n]
    by - (rule exI[of _ ltr], rule exI[of _ lte], rule exI[of _ d], (intro conjI; assumption))
  with hyps show ?thesis by simp
qed

subsection \<open>The CNN classifier\<close>

text \<open>
  Claim C4, as amended. As shipped, \<open>CNN_classifier\<close> constructs only the first two
  layers of the described architecture, for any arguments: the input layer (of shape
  (209,1) by default) and one batch normalization with epsilon 1e-06 and momentum 0.9.
  None of the eleven further layers, from the first \<open>Conv1D\<close> to the final \<open>Dense\<close>
  layer of output dimension 8 with softmax activation, is added; they are left for the
  student to write.
\<close>

theorem CNN_classifier_two_layers:
  "CNN_classifier ishape ncls = [Input ishape, BatchNormalization (1 / 10 ^ 6) (9 / 10) None]
   \<and> CNN_classifier input_shape num_classes = take 2 described_architecture
   \<and> length (CNN_classifier ishape ncls) = 2"
  by (simp add: CNN_classifier_def Sequential_def add_def input_shape_def described_architecture_def)

text \<open>
  Claim C4 as stated says that \<open>CNN_classifier()\<close> constructs the thirteen layers
  ending in the softmax layer of width 8. The model it returns has two layers, and its
  last layer is a batch normalization.
\<close>

theorem CNN_classifier_architecture_counterexample:
  "CNN_classifier input_shape num_classes \<noteq> described_architecture
   \<and> length (CNN_classifier input_shape num_classes) = 2
   \<and> length described_architecture = 13
   \<and> last (CNN_classifier input_shape num_classes) \<noteq> Dense 8 (Some Softmax) (Some l2_lambda)"
  by (simp add: CNN_classifier_def Sequential_def add_def input_shape_def described_architecture_def)

end
